theory Spec2Isabelle
  imports Main "HOL-Library.Word" "HOL-Library.Multiset"
begin

section \<open>The pipeline runner: data model\<close>

text \<open>
  The embedding follows the runner of the pipeline package (ExecuteRun, executeRun,
  executeTaskRun, panickedRunResults, inputsSorted, ExecuteAndInsertFinishedRun).
  Go's machine integers are words; a \<open>time.Duration\<close> is an int64 count of nanoseconds;
  an instant (\<open>time.Time\<close>) is the number of nanoseconds since the zero \<open>time.Time\<close>, so
  the zero value of \<open>time.Time\<close> is \<open>0\<close>.
\<close>

type_synonym int32 = "32 word"
type_synonym int64 = "64 word"
type_synonym Duration = "64 word"
type_synonym Time = int

text \<open>Values of type \<open>interface{}\<close>; \<open>ANil\<close> is the nil interface.\<close>

datatype any = ANil | AInt int | AString string | ABytes "8 word list" | AList "any list"

text \<open>
  Go's \<open>error\<close> values; a nil error is \<open>None\<close> of \<open>error option\<close>. \<open>Wrapped e fmt arg\<close> is
  what \<open>errors.Wrapf(e, fmt, arg)\<close> builds from a non-nil \<open>e\<close>.
\<close>

datatype error = ErrRunPanicked | panicError any | ErrOther string | Wrapped error string int32

definition errors_Wrapf :: "error option \<Rightarrow> string \<Rightarrow> int32 \<Rightarrow> error option" where
  "errors_Wrapf err fmt arg = (case err of None \<Rightarrow> None | Some e \<Rightarrow> Some (Wrapped e fmt arg))"

text \<open>
  The outcome of a call that may panic. \<open>Panic v\<close>: the call panicked, and \<open>recover()\<close> in a
  deferred function of the caller stops the panic and yields \<open>v\<close>. The value of
  \<open>panic(nil)\<close> is \<open>ANil\<close> (Go before 1.21, and later for modules that declare an earlier
  version): \<open>recover()\<close> then yields nil although the goroutine was panicking.
\<close>

datatype 'a outcome = Return 'a | Panic any

record Result =
  Value :: any
  Error :: "error option"

record JSONSerializable =
  Val :: any
  Null :: bool

type_synonym RunErrors = "string option list"
type_synonym Vars = "(string \<times> any) list"
type_synonym chan = nat
type_synonym DB = nat

datatype Config = Config nat

text \<open>\<open>SafeTx{txdb, txMu}\<close>: the database handle; the mutex (one per run) has no state here.\<close>

datatype SafeTx = SafeTx DB

datatype TaskType = TaskTypeHTTP | TaskTypeBridge | TaskTypeOther string

text \<open>
  A task as the runner sees it through the \<open>Task\<close> interface: \<open>Type()\<close>, \<open>DotID()\<close>,
  \<open>TaskTimeout()\<close> (a duration and whether it is set), and the two fields the runner
  writes on HTTP and bridge tasks. \<open>Task.Run\<close> belongs to the task implementations, which
  are outside the runner: it is the parameter \<open>Task_Run\<close> below.
\<close>

record Task =
  Type :: TaskType
  DotID :: string
  TaskTimeout :: "Duration \<times> bool"
  task_config :: "Config option"
  safeTx :: "SafeTx option"

record input =
  result :: Result
  index :: int32

record memoryTaskRun =
  task :: Task
  inputs :: "input list"
  vars :: Vars

record TaskRunResult =
  Task :: Task
  Result :: Result
  CreatedAt :: Time
  FinishedAt :: Time

record Spec =
  ID :: int32
  DotDagSource :: string
  MaxTaskDuration :: Duration
  JobID :: int32
  JobName :: string

record Pipeline =
  Tasks :: "Task list"

text \<open>
  Modelled from the spec: the \<open>Run\<close> and \<open>FinalResult\<close> structs are declared outside the
  sources; they have the fields the spec lists (pipeline-spec id, created-at, finished-at,
  outputs, errors) and \<open>ID\<close>, which the runner reads. \<open>FinishedAt\<close> is a \<open>*time.Time\<close>:
  \<open>None\<close> is the nil pointer and \<open>Some t\<close> a pointer to a variable that holds \<open>t\<close>; the
  runner never writes the variable after taking its address, so the pointer is
  represented by the value read through it.
\<close>

record Run =
  ID :: int64
  PipelineSpecID :: int32
  Errors :: RunErrors
  Outputs :: JSONSerializable
  CreatedAt :: Time
  FinishedAt :: "Time option"

record FinalResult =
  Outputs :: "any list"
  Errors :: "error option list"

definition zero_Run :: Run where
  "zero_Run = \<lparr>Run.ID = 0, PipelineSpecID = 0, Run.Errors = [],
     Run.Outputs = \<lparr>Val = ANil, Null = False\<rparr>, Run.CreatedAt = 0, Run.FinishedAt = None\<rparr>"

definition zero_FinalResult :: FinalResult where
  "zero_FinalResult = \<lparr>FinalResult.Outputs = [], FinalResult.Errors = []\<rparr>"

record runner =
  config :: Config
  chStop :: chan

subsection \<open>Contexts\<close>

text \<open>
  Modelled from the spec: \<open>context.Context\<close> and \<open>utils.CombinedContext\<close> are not in the
  sources. A context is the list of the events that cancel it: the closing of a channel
  it watches, or an instant (its deadline). \<open>context.Background()\<close> is the empty list.
\<close>

datatype cause = OnChan chan | AtTime Time

type_synonym Ctx = "cause list"

fun fired :: "chan set \<Rightarrow> Time \<Rightarrow> cause \<Rightarrow> bool" where
  "fired closed now (OnChan ch) = (ch \<in> closed)"
| "fired closed now (AtTime t) = (t \<le> now)"

definition ctx_Done :: "Ctx \<Rightarrow> chan set \<Rightarrow> Time \<Rightarrow> bool" where
  "ctx_Done ctx closed now = list_ex (fired closed now) ctx"

fun ctx_Deadline :: "Ctx \<Rightarrow> Time option" where
  "ctx_Deadline [] = None"
| "ctx_Deadline (OnChan ch # cs) = ctx_Deadline cs"
| "ctx_Deadline (AtTime t # cs) =
     (case ctx_Deadline cs of None \<Rightarrow> Some t | Some t' \<Rightarrow> Some (min t t'))"

subsection \<open>The world: clock readings and observable events\<close>

datatype event =
    Debugw string
  | Errorw string any
  | Sleep Duration
  | ConfigInjected Task
  | SchedulerStarted
  | GoWorker memoryTaskRun
  | ResultSent TaskRunResult
  | Metric string

record world =
  tick :: nat
  trace :: "event list"

text \<open>The view the dispatch loop has of the scheduler's runnable channel.\<close>

datatype 's taskCh_view = Received memoryTaskRun 's | Waiting | ChClosed

text \<open>
  Everything the runner calls that is not in the sources is a parameter: the clock (the
  \<open>n\<close>-th reading of \<open>time.Now()\<close>), \<open>Parse\<close> and \<open>Spec.Pipeline\<close>, the task
  implementations, \<open>sort.Slice\<close>, \<open>FinalResult\<close> and its accessors, the backoff, the ORM,
  and the scheduler. The scheduler is a state machine of type \<open>'s\<close>: \<open>taskCh\<close> is what a
  receive on its runnable channel gives (a task run, the channel closed, or nothing
  before a result is posted), \<open>resultCh\<close> delivers a result to it, \<open>results\<close> reads its
  collection of results. \<open>pick\<close> chooses which in-flight worker posts next.
\<close>

record 's env =
  clk :: "nat \<Rightarrow> Time"
  Parse :: "string \<Rightarrow> (error + Pipeline) outcome"
  Spec_Pipeline :: "Spec \<Rightarrow> error + Pipeline"
  Task_Run :: "Task \<Rightarrow> Ctx \<Rightarrow> Vars \<Rightarrow> JSONSerializable \<Rightarrow> Result list \<Rightarrow> Result outcome"
  sort_Slice :: "(input \<Rightarrow> input \<Rightarrow> bool) \<Rightarrow> input list \<Rightarrow> input list"
  trrs_FinalResult :: "TaskRunResult list \<Rightarrow> FinalResult"
  OutputsDB :: "FinalResult \<Rightarrow> JSONSerializable"
  ErrorsDB :: "FinalResult \<Rightarrow> RunErrors"
  HasErrors :: "FinalResult \<Rightarrow> bool"
  backoff_Duration :: "nat \<Rightarrow> Duration"
  orm_DB :: DB
  orm_InsertFinishedRun ::
    "DB \<Rightarrow> Run \<Rightarrow> TaskRunResult list \<Rightarrow> bool \<Rightarrow> world \<Rightarrow> (int64 \<times> error option) \<times> world"
  newScheduler :: "Pipeline \<Rightarrow> any \<Rightarrow> 's"
  taskCh :: "'s \<Rightarrow> 's taskCh_view"
  resultCh :: "'s \<Rightarrow> TaskRunResult \<Rightarrow> 's"
  results :: "'s \<Rightarrow> TaskRunResult list"
  pick :: "nat \<Rightarrow> nat"

definition time_Now :: "'s env \<Rightarrow> world \<Rightarrow> Time \<times> world" where
  "time_Now env w = (clk env (tick w), w\<lparr>tick := Suc (tick w)\<rparr>)"

definition emit :: "event \<Rightarrow> world \<Rightarrow> world" where
  "emit e w = w\<lparr>trace := trace w @ [e]\<rparr>"

text \<open>
  Modelled from the spec: \<open>utils.CombinedContext(chStop, d)\<close> composes the stop signal with
  a timeout of \<open>d\<close> from now.
\<close>

definition CombinedContext :: "'s env \<Rightarrow> chan \<Rightarrow> Duration \<Rightarrow> world \<Rightarrow> Ctx \<times> world" where
  "CombinedContext env ch d w =
     (case time_Now env w of (now, w') \<Rightarrow> ([OnChan ch, AtTime (now + sint d)], w'))"

section \<open>The runner's operations\<close>

subsection \<open>inputsSorted\<close>

text \<open>
  \<open>inputsSorted\<close> copies \<open>m.inputs\<close>, sorts the copy with \<open>sort.Slice\<close> under
  \<open>inputs[i].index < inputs[j].index\<close> (a comparison of int32 values) and returns the
  results of the sorted copy, in that order.
\<close>

definition index_less :: "input \<Rightarrow> input \<Rightarrow> bool" where
  "index_less a b = (index a <s index b)"

definition inputsSorted :: "'s env \<Rightarrow> memoryTaskRun \<Rightarrow> Result list" where
  "inputsSorted env m = map result (sort_Slice env index_less (inputs m))"

subsection \<open>executeTaskRun\<close>

text \<open>
  \<open>start\<close> is read first. The context of the call is chosen next: with the task's own
  timeout if it is set, otherwise with the spec's \<open>MaxTaskDuration\<close> if that is not zero,
  the context is replaced by \<open>CombinedContext(r.chStop, timeout)\<close>; otherwise the context
  passed in stays. Then \<open>taskRun.task.Run(ctx, taskRun.vars, meta, taskRun.inputsSorted())\<close>
  is called; a panic of the task leaves \<open>executeTaskRun\<close> as a panic.
\<close>

definition executeTaskRun ::
  "'s env \<Rightarrow> runner \<Rightarrow> Ctx \<Rightarrow> Spec \<Rightarrow> memoryTaskRun \<Rightarrow> JSONSerializable \<Rightarrow> world
    \<Rightarrow> TaskRunResult outcome \<times> world" where
  "executeTaskRun env r ctx spec taskRun meta w =
     (case time_Now env w of (start, w1) \<Rightarrow>
       (case TaskTimeout (task taskRun) of (taskTimeout, isSet) \<Rightarrow>
         (case (if isSet then CombinedContext env (chStop r) taskTimeout w1
                else if MaxTaskDuration spec \<noteq> 0
                then CombinedContext env (chStop r) (MaxTaskDuration spec) w1
                else (ctx, w1)) of
            (ctx', w2) \<Rightarrow>
              (case Task_Run env (task taskRun) ctx' (vars taskRun) meta
                      (inputsSorted env taskRun) of
                 Panic v \<Rightarrow> (Panic v, w2)
               | Return res \<Rightarrow>
                   (case time_Now env (emit (Debugw ''Pipeline task completed'') w2) of
                      (fin, w3) \<Rightarrow>
                        (Return \<lparr>Task = task taskRun, Result = res,
                           TaskRunResult.CreatedAt = start, TaskRunResult.FinishedAt = fin\<rparr>,
                         w3))))))"

subsection \<open>The worker of the dispatch loop\<close>

definition logTaskRunToPrometheus :: "TaskRunResult \<Rightarrow> Spec \<Rightarrow> world \<Rightarrow> world" where
  "logTaskRunToPrometheus trr spec w =
     emit (Metric (if Error (Result trr) \<noteq> None then ''pipeline_tasks_total_finished error''
                   else ''pipeline_tasks_total_finished completed''))
       (emit (Metric ''pipeline_task_execution_time'') w)"

text \<open>
  The goroutine started for each task run. It returns what it sent on the scheduler's
  result channel, if anything. Without a panic, the result of \<open>executeTaskRun\<close> is
  recorded in the metrics and sent. On a panic the deferred function runs
  \<open>if err := recover(); err != nil { ... }\<close>: the panic is stopped in any case; when the
  recovered value is not nil it is logged and a result built from it is sent, and when it
  is nil nothing is sent.
\<close>

definition worker ::
  "'s env \<Rightarrow> runner \<Rightarrow> Ctx \<Rightarrow> Spec \<Rightarrow> memoryTaskRun \<Rightarrow> JSONSerializable \<Rightarrow> world
    \<Rightarrow> TaskRunResult option \<times> world" where
  "worker env r ctx spec taskRun meta w =
     (case executeTaskRun env r ctx spec taskRun meta w of
        (Return res, w1) \<Rightarrow>
          (Some res, emit (ResultSent res) (logTaskRunToPrometheus res spec w1))
      | (Panic err, w1) \<Rightarrow>
          if err \<noteq> ANil then
            (case time_Now env (emit (Errorw ''goroutine panicked executing run'' err) w1) of
               (now, w2) \<Rightarrow>
                 (let trr = \<lparr>Task = task taskRun,
                             Result = \<lparr>Value = ANil, Error = Some (panicError err)\<rparr>,
                             TaskRunResult.CreatedAt = 0, TaskRunResult.FinishedAt = now\<rparr>
                  in (Some trr, emit (ResultSent trr) w2)))
          else (None, w1))"

subsection \<open>The dispatch loop\<close>

definition remove_nth :: "nat \<Rightarrow> 'a list \<Rightarrow> 'a list" where
  "remove_nth i xs = take i xs @ drop (Suc i) xs"

datatype 's dispatch_step =
    Continue "'s \<times> memoryTaskRun list \<times> world"
  | Finished "'s \<times> world"
  | Stuck

text \<open>
  One step of \<open>for taskRun := range scheduler.taskCh { go func(...) {...}(taskRun) }\<close>,
  with the goroutines it started (\<open>inflight\<close>). A received task run starts a worker. When
  the scheduler waits for a result, one of the in-flight workers (chosen by \<open>pick\<close>) runs
  to its end: if it sent a result the scheduler receives it, and if it sent nothing the
  scheduler goes on waiting. With no worker in flight the loop blocks for ever.
\<close>

definition dispatch_one ::
  "'s env \<Rightarrow> runner \<Rightarrow> Ctx \<Rightarrow> Spec \<Rightarrow> JSONSerializable
    \<Rightarrow> 's \<times> memoryTaskRun list \<times> world \<Rightarrow> 's dispatch_step" where
  "dispatch_one env r ctx spec meta cfg =
     (case cfg of (s, inflight, w) \<Rightarrow>
        (case taskCh env s of
           ChClosed \<Rightarrow> Finished (s, w)
         | Received taskRun s' \<Rightarrow> Continue (s', inflight @ [taskRun], emit (GoWorker taskRun) w)
         | Waiting \<Rightarrow>
             if inflight = [] then Stuck
             else (let i = pick env (tick w) mod length inflight in
                   case worker env r ctx spec (inflight ! i) meta w of
                     (Some trr, w') \<Rightarrow> Continue (resultCh env s trr, remove_nth i inflight, w')
                   | (None, w') \<Rightarrow> Continue (s, remove_nth i inflight, w'))))"

partial_function (option) dispatch ::
  "'s env \<Rightarrow> runner \<Rightarrow> Ctx \<Rightarrow> Spec \<Rightarrow> JSONSerializable
    \<Rightarrow> 's \<times> memoryTaskRun list \<times> world \<Rightarrow> ('s \<times> world) option" where
  "dispatch env r ctx spec meta cfg =
     (case dispatch_one env r ctx spec meta cfg of
        Finished res \<Rightarrow> Some res
      | Stuck \<Rightarrow> None
      | Continue cfg' \<Rightarrow> dispatch env r ctx spec meta cfg')"

declare dispatch.simps [code]

subsection \<open>executeRun\<close>

text \<open>
  The loop that initialises certain task parameters: an HTTP task gets the runner's
  config, a bridge task the config and the \<open>SafeTx\<close>; each write is recorded in the trace.
\<close>

fun initTasks :: "runner \<Rightarrow> DB \<Rightarrow> Task list \<Rightarrow> world \<Rightarrow> Task list \<times> world" where
  "initTasks r txdb [] w = ([], w)"
| "initTasks r txdb (t # ts) w =
     (if Type t = TaskTypeHTTP then
        (let t' = t\<lparr>task_config := Some (config r)\<rparr> in
         case initTasks r txdb ts (emit (ConfigInjected t') w) of (ts', w') \<Rightarrow> (t' # ts', w'))
      else if Type t = TaskTypeBridge then
        (let t' = t\<lparr>task_config := Some (config r), safeTx := Some (SafeTx txdb)\<rparr> in
         case initTasks r txdb ts (emit (ConfigInjected t') w) of (ts', w') \<Rightarrow> (t' # ts', w'))
      else
        (case initTasks r txdb ts w of (ts', w') \<Rightarrow> (t # ts', w')))"

text \<open>
  \<open>executeRun\<close> returns \<open>(run, trrs, retry, err)\<close> and the world it leaves. \<open>None\<close>: it
  does not return to its caller, because the dispatch loop never ends or because a panic
  of \<open>Parse\<close> unwinds through it (\<open>executeRun\<close> has no \<open>recover\<close>). On the second return
  path \<open>err\<close> is the variable assigned by \<open>Parse\<close>, which is nil there.
\<close>

definition executeRun ::
  "'s env \<Rightarrow> runner \<Rightarrow> Ctx \<Rightarrow> DB \<Rightarrow> Spec \<Rightarrow> any \<Rightarrow> JSONSerializable \<Rightarrow> world
    \<Rightarrow> (Run \<times> TaskRunResult list \<times> bool \<times> error option \<times> world) option" where
  "executeRun env r ctx txdb spec pipelineInput meta w =
     (case time_Now env (emit (Debugw ''Initiating tasks for pipeline run of spec'') w) of
        (startRun, w1) \<Rightarrow>
          (let run = zero_Run\<lparr>PipelineSpecID := Spec.ID spec, Run.CreatedAt := startRun\<rparr> in
            (case Parse env (DotDagSource spec) of
               Panic v \<Rightarrow> None
             | Return (Inl err) \<Rightarrow> Some (run, [], False, Some err, w1)
             | Return (Inr pipeline) \<Rightarrow>
                 (case initTasks r txdb (Tasks pipeline) w1 of (ts, w2) \<Rightarrow>
                   (case dispatch env r ctx spec meta
                           (newScheduler env (pipeline\<lparr>Tasks := ts\<rparr>) pipelineInput, [],
                            emit SchedulerStarted w2) of
                      None \<Rightarrow> None
                    | Some (s, w3) \<Rightarrow>
                        (case time_Now env w3 of (finishRun, w4) \<Rightarrow>
                          (let w5 = emit (Metric ''pipeline_run_total_time_to_completion'')
                                      (emit (Debugw ''Finished all tasks for pipeline run'') w4);
                               taskRunResults = results env s;
                               finalResult = trrs_FinalResult env taskRunResults;
                               w6 = (if HasErrors env finalResult
                                     then emit (Metric ''pipeline_run_errors'') w5 else w5);
                               run' = run\<lparr>Run.Errors := ErrorsDB env finalResult,
                                          Run.Outputs := OutputsDB env finalResult,
                                          Run.FinishedAt := Some finishRun\<rparr>
                           in Some (run', taskRunResults, False, None, w6))))))))"

subsection \<open>panickedRunResults\<close>

fun panickedTrrs :: "'s env \<Rightarrow> Time \<Rightarrow> Task list \<Rightarrow> TaskRunResult list \<Rightarrow> world
    \<Rightarrow> TaskRunResult list \<times> world" where
  "panickedTrrs env f [] acc w = (acc, w)"
| "panickedTrrs env f (t # ts) acc w =
     (case time_Now env w of (now, w') \<Rightarrow>
        panickedTrrs env f ts
          (acc @ [\<lparr>Task = t, Result = \<lparr>Value = ANil, Error = Some ErrRunPanicked\<rparr>,
                    TaskRunResult.CreatedAt = f, TaskRunResult.FinishedAt = now\<rparr>]) w')"

definition panickedRunResults ::
  "'s env \<Rightarrow> Spec \<Rightarrow> world \<Rightarrow> Run \<times> TaskRunResult list \<times> error option \<times> world" where
  "panickedRunResults env spec w =
     (case time_Now env w of (now, w1) \<Rightarrow>
       (let run0 = zero_Run\<lparr>PipelineSpecID := Spec.ID spec, Run.CreatedAt := now\<rparr>;
            run = run0\<lparr>Run.FinishedAt := Some (Run.CreatedAt run0)\<rparr>
        in (case Spec_Pipeline env spec of
              Inl err \<Rightarrow> (run, [], Some err, w1)
            | Inr p \<Rightarrow>
                (case time_Now env w1 of (f, w2) \<Rightarrow>
                  (case panickedTrrs env f (Tasks p) [] w2 of (trrs, w3) \<Rightarrow>
                    (run\<lparr>Run.Outputs := OutputsDB env (trrs_FinalResult env trrs),
                         Run.Errors := ErrorsDB env (trrs_FinalResult env trrs)\<rparr>,
                     trrs, None, w3))))))"

subsection \<open>ExecuteRun\<close>

definition numPanicRetries :: nat where
  "numPanicRetries = 5"

text \<open>
  The retry loop of \<open>ExecuteRun\<close>, over the attempt it repeats (\<open>r.executeRun\<close> applied to
  the arguments of \<open>ExecuteRun\<close>). The state is the loop counter \<open>i\<close> and the variables
  \<open>run\<close>, \<open>trrs\<close> and \<open>err\<close>; \<open>calls\<close> counts the attempts made and is not a variable of
  the source. A retry sleeps for the backoff's next duration. An attempt that does not
  return leaves the loop and \<open>ExecuteRun\<close> the same way: nothing in \<open>ExecuteRun\<close> recovers
  a panic.
\<close>

function ExecuteRun_loop ::
  "'s env \<Rightarrow> (world \<Rightarrow> (Run \<times> TaskRunResult list \<times> bool \<times> error option \<times> world) option)
    \<Rightarrow> nat \<Rightarrow> nat \<Rightarrow> Run \<times> TaskRunResult list \<times> error option \<Rightarrow> world
    \<Rightarrow> (nat \<times> nat \<times> (Run \<times> TaskRunResult list \<times> error option) \<times> world) option" where
  "ExecuteRun_loop env attempt i calls st w =
     (if i < numPanicRetries then
        (case attempt w of
           None \<Rightarrow> None
         | Some (run, trrs, retry, err, w') \<Rightarrow>
             if retry then
               ExecuteRun_loop env attempt (i + 1) (calls + 1) (run, trrs, err)
                 (emit (Sleep (backoff_Duration env i)) w')
             else Some (i, calls + 1, (run, trrs, err), w'))
      else Some (i, calls, st, w))"
  by pat_completeness auto
termination
  by (relation "measure (\<lambda>(env, attempt, i, calls, st, w). numPanicRetries - i)") auto

declare ExecuteRun_loop.simps [simp del]

definition ExecuteRun_with ::
  "'s env \<Rightarrow> (world \<Rightarrow> (Run \<times> TaskRunResult list \<times> bool \<times> error option \<times> world) option)
    \<Rightarrow> Spec \<Rightarrow> world \<Rightarrow> (Run \<times> TaskRunResult list \<times> error option \<times> world) option" where
  "ExecuteRun_with env attempt spec w =
     (case ExecuteRun_loop env attempt 0 0 (zero_Run, [], None) w of
        None \<Rightarrow> None
      | Some (i, calls, (run, trrs, err), w') \<Rightarrow>
          if i = numPanicRetries then Some (panickedRunResults env spec w')
          else Some (run, trrs, err, w'))"

definition ExecuteRun ::
  "'s env \<Rightarrow> runner \<Rightarrow> Ctx \<Rightarrow> Spec \<Rightarrow> any \<Rightarrow> JSONSerializable \<Rightarrow> world
    \<Rightarrow> (Run \<times> TaskRunResult list \<times> error option \<times> world) option" where
  "ExecuteRun env r ctx spec pipelineInput meta w =
     ExecuteRun_with env (executeRun env r ctx (orm_DB env) spec pipelineInput meta) spec w"

subsection \<open>ExecuteAndInsertFinishedRun\<close>

definition ExecuteAndInsertFinishedRun ::
  "'s env \<Rightarrow> runner \<Rightarrow> Ctx \<Rightarrow> Spec \<Rightarrow> any \<Rightarrow> JSONSerializable \<Rightarrow> bool \<Rightarrow> world
    \<Rightarrow> (int64 \<times> FinalResult \<times> error option \<times> world) option" where
  "ExecuteAndInsertFinishedRun env r ctx spec pipelineInput meta saveSuccessfulTaskRuns w =
     (case ExecuteRun env r ctx spec pipelineInput meta w of
        None \<Rightarrow> None
      | Some (run, trrs, err, w1) \<Rightarrow>
          if err \<noteq> None then
            Some (Run.ID run, zero_FinalResult,
                  errors_Wrapf err ''error executing run for spec ID %v'' (Spec.ID spec), w1)
          else
            (let finalResult = trrs_FinalResult env trrs in
             case orm_InsertFinishedRun env (orm_DB env) run trrs saveSuccessfulTaskRuns w1 of
               ((runID, err'), w2) \<Rightarrow>
                 if err' \<noteq> None then
                   Some (runID, finalResult,
                         errors_Wrapf err' ''error inserting finished results for spec ID %v''
                           (Spec.ID spec), w2)
                 else Some (runID, finalResult, None, w2)))"

subsection \<open>The contract of sort.Slice\<close>

text \<open>
  \<open>sort.Slice\<close> is Go's library: it permutes the slice so that no later element is less
  than an earlier one, and it is not stable. This is all the runner may rely on, here for
  the one ordering the runner sorts by.
\<close>

definition sort_Slice_sorts :: "((input \<Rightarrow> input \<Rightarrow> bool) \<Rightarrow> input list \<Rightarrow> input list) \<Rightarrow> bool" where
  "sort_Slice_sorts srt =
     (\<forall>xs. mset (srt index_less xs) = mset xs \<and>
           sorted_wrt (\<lambda>a b. \<not> index_less b a) (srt index_less xs))"

section \<open>A concrete environment\<close>

text \<open>
  An environment to run the definitions in: a clock that starts at 1000 and advances by one
  per reading, a parser that rejects the source \<open>''bad''\<close>, panics on the source
  \<open>''panic''\<close>, gives the one task \<open>''nil''\<close> for the source \<open>''nil''\<close> and otherwise two
  tasks. Of the task implementations, \<open>''boom''\<close> panics with a string, \<open>''nil''\<close> calls
  \<open>panic(nil)\<close>, \<open>''deadline''\<close> returns the deadline of its context, \<open>''stop''\<close> returns
  whether its context is done once the runner's stop channel is closed (at time 0), and
  the others return the list of their input values in the order received. There are an
  insertion sort by index for \<open>sort.Slice\<close>, an ORM whose insert fails, and a scheduler for graphs without
  edges: every task is emitted once with the pipeline input at index 0, and the runnable
  channel closes when every emitted task has posted.
\<close>

definition demo_task :: "string \<Rightarrow> Task" where
  "demo_task name = \<lparr>Type = TaskTypeOther ''demo'', DotID = name, TaskTimeout = (0, False),
     task_config = None, safeTx = None\<rparr>"

definition demo_parse :: "string \<Rightarrow> (error + Pipeline) outcome" where
  "demo_parse src =
     (if src = ''bad'' then Return (Inl (ErrOther ''syntax error''))
      else if src = ''panic'' then Panic (AString ''parser panicked'')
      else if src = ''nil'' then Return (Inr \<lparr>Tasks = [demo_task ''nil'']\<rparr>)
      else Return (Inr \<lparr>Tasks = [demo_task ''a'', demo_task ''boom'']\<rparr>))"

definition demo_runner :: runner where
  "demo_runner = \<lparr>config = Config 0, chStop = 7\<rparr>"

definition demo_Task_Run ::
  "Task \<Rightarrow> Ctx \<Rightarrow> Vars \<Rightarrow> JSONSerializable \<Rightarrow> Result list \<Rightarrow> Result outcome" where
  "demo_Task_Run t c vs m ins =
     (if DotID t = ''boom'' then Panic (AString ''boom'')
      else if DotID t = ''nil'' then Panic ANil
      else if DotID t = ''deadline'' then
        Return \<lparr>Value = (case ctx_Deadline c of None \<Rightarrow> ANil | Some d \<Rightarrow> AInt d), Error = None\<rparr>
      else if DotID t = ''stop'' then
        Return \<lparr>Value = AString (if ctx_Done c {chStop demo_runner} 0 then ''cancelled''
                                   else ''running''), Error = None\<rparr>
      else Return \<lparr>Value = AList (map Value ins), Error = None\<rparr>)"

definition demo_FinalResult :: "TaskRunResult list \<Rightarrow> FinalResult" where
  "demo_FinalResult trrs =
     \<lparr>FinalResult.Outputs = map (\<lambda>trr. Value (Result trr)) trrs,
      FinalResult.Errors = map (\<lambda>trr. Error (Result trr)) trrs\<rparr>"

type_synonym demo_sched = "memoryTaskRun list \<times> nat \<times> TaskRunResult list"

definition demo_newScheduler :: "Pipeline \<Rightarrow> any \<Rightarrow> demo_sched" where
  "demo_newScheduler p pipelineInput =
     (map (\<lambda>t. \<lparr>task = t, inputs = [\<lparr>result = \<lparr>Value = pipelineInput, Error = None\<rparr>, index = 0\<rparr>],
                 vars = []\<rparr>) (Tasks p), 0, [])"

fun demo_taskCh :: "demo_sched \<Rightarrow> demo_sched taskCh_view" where
  "demo_taskCh (tr # pending, waiting, done) = Received tr (pending, Suc waiting, done)"
| "demo_taskCh ([], waiting, done) = (if waiting > 0 then Waiting else ChClosed)"

fun demo_resultCh :: "demo_sched \<Rightarrow> TaskRunResult \<Rightarrow> demo_sched" where
  "demo_resultCh (pending, waiting, done) trr = (pending, waiting - 1, done @ [trr])"

definition demo_env :: "demo_sched env" where
  "demo_env =
     \<lparr>clk = (\<lambda>n. 1000 + int n),
      Parse = demo_parse,
      Spec_Pipeline = (\<lambda>spec. Inr \<lparr>Tasks = [demo_task ''a'', demo_task ''boom'']\<rparr>),
      Task_Run = demo_Task_Run,
      sort_Slice = (\<lambda>less. sort_key (\<lambda>i. sint (index i))),
      trrs_FinalResult = demo_FinalResult,
      OutputsDB = (\<lambda>fr. \<lparr>Val = AList (FinalResult.Outputs fr), Null = False\<rparr>),
      ErrorsDB = (\<lambda>fr. map (map_option (\<lambda>e. ''error'')) (FinalResult.Errors fr)),
      HasErrors = (\<lambda>fr. list_ex (\<lambda>e. e \<noteq> None) (FinalResult.Errors fr)),
      backoff_Duration = (\<lambda>n. 1000000000),
      orm_DB = 0,
      orm_InsertFinishedRun =
        (\<lambda>db run trrs saveSuccessfulTaskRuns w. ((0, Some (ErrOther ''insert failed'')), w)),
      newScheduler = demo_newScheduler,
      taskCh = demo_taskCh,
      resultCh = demo_resultCh,
      results = (\<lambda>s. snd (snd s)),
      pick = (\<lambda>n. 0)\<rparr>"

definition demo_spec :: "string \<Rightarrow> Spec" where
  "demo_spec src = \<lparr>Spec.ID = 42, DotDagSource = src, MaxTaskDuration = 0, JobID = 1,
     JobName = ''job''\<rparr>"

definition demo_meta :: JSONSerializable where
  "demo_meta = \<lparr>Val = ANil, Null = True\<rparr>"

definition demo_world :: world where
  "demo_world = \<lparr>tick = 0, trace = []\<rparr>"

text \<open>
  The subtracting task of a diamond: its inputs from \<open>B\<close> (edge index 0, value 21) and
  from \<open>C\<close> (edge index 1, value 19), collected in either order.
\<close>

definition demo_taskRun_B_first :: memoryTaskRun where
  "demo_taskRun_B_first = \<lparr>task = demo_task ''d'',
     inputs = [\<lparr>result = \<lparr>Value = AInt 21, Error = None\<rparr>, index = 0\<rparr>,
               \<lparr>result = \<lparr>Value = AInt 19, Error = None\<rparr>, index = 1\<rparr>],
     vars = []\<rparr>"

definition demo_taskRun_C_first :: memoryTaskRun where
  "demo_taskRun_C_first = \<lparr>task = demo_task ''d'',
     inputs = [\<lparr>result = \<lparr>Value = AInt 19, Error = None\<rparr>, index = 1\<rparr>,
               \<lparr>result = \<lparr>Value = AInt 21, Error = None\<rparr>, index = 0\<rparr>],
     vars = []\<rparr>"

text \<open>A task run whose task panics.\<close>

definition demo_taskRun_boom :: memoryTaskRun where
  "demo_taskRun_boom = \<lparr>task = demo_task ''boom'', inputs = [], vars = []\<rparr>"

text \<open>A task run whose task calls \<open>panic(nil)\<close>.\<close>

definition demo_taskRun_nil :: memoryTaskRun where
  "demo_taskRun_nil = \<lparr>task = demo_task ''nil'', inputs = [], vars = []\<rparr>"

text \<open>
  Task runs that report the deadline of their context (with and without a timeout of
  their own of 1 ms), and whether their context is done once the stop channel is closed.
\<close>

definition demo_taskRun_deadline :: "Duration \<times> bool \<Rightarrow> memoryTaskRun" where
  "demo_taskRun_deadline timeout =
     \<lparr>task = (demo_task ''deadline'')\<lparr>TaskTimeout := timeout\<rparr>, inputs = [], vars = []\<rparr>"

definition demo_taskRun_stop :: "Duration \<times> bool \<Rightarrow> memoryTaskRun" where
  "demo_taskRun_stop timeout =
     \<lparr>task = (demo_task ''stop'')\<lparr>TaskTimeout := timeout\<rparr>, inputs = [], vars = []\<rparr>"

section \<open>Properties\<close>

subsection \<open>Helper lemmas\<close>

lemma executeRun_retry_False:
  "executeRun env r ctx txdb spec pipelineInput meta w = Some (run, trrs, retry, err, w')
    \<Longrightarrow> retry = False"
  by (auto simp: executeRun_def Let_def
      split: prod.splits sum.splits option.splits outcome.splits)

lemma ExecuteRun_loop_first_attempt:
  "ExecuteRun_loop env attempt 0 0 st w =
     (case attempt w of
        None \<Rightarrow> None
      | Some (run, trrs, retry, err, w') \<Rightarrow>
          if retry then
            ExecuteRun_loop env attempt 1 1 (run, trrs, err) (emit (Sleep (backoff_Duration env 0)) w')
          else Some (0, 1, (run, trrs, err), w'))"
  by (subst ExecuteRun_loop.simps) (simp add: numPanicRetries_def split: option.split)

lemma executeRun_parse_failure:
  "Parse env (DotDagSource spec) = Return (Inl e) \<Longrightarrow>
   executeRun env r ctx txdb spec pipelineInput meta w =
     Some (zero_Run\<lparr>PipelineSpecID := Spec.ID spec, Run.CreatedAt := clk env (tick w)\<rparr>, [],
           False, Some e,
           \<lparr>tick = Suc (tick w),
            trace = trace w @ [Debugw ''Initiating tasks for pipeline run of spec'']\<rparr>)"
  by (simp add: executeRun_def time_Now_def emit_def Let_def)

subsection \<open>executeRun never asks for a retry\<close>

text \<open>
  Claim C2. On every input, whenever \<open>executeRun\<close> returns, its \<open>retry\<close> result is false
  (on the parse-failure path and on normal completion alike). Hence the retry loop of
  \<open>ExecuteRun\<close> makes exactly one attempt (it ends with \<open>i = 0\<close> after one call), and
  \<open>ExecuteRun\<close> returns what that single attempt returned: the branch that synthesizes
  the panicked run is not taken.
\<close>

theorem executeRun_never_signals_retry:
  "(\<forall>run trrs err w'.
      executeRun env r ctx txdb spec pipelineInput meta w \<noteq> Some (run, trrs, True, err, w')) \<and>
   ExecuteRun_loop env (executeRun env r ctx (orm_DB env) spec pipelineInput meta) 0 0 st w =
     (case executeRun env r ctx (orm_DB env) spec pipelineInput meta w of
        None \<Rightarrow> None
      | Some (run, trrs, retry, err, w') \<Rightarrow> Some (0, 1, (run, trrs, err), w')) \<and>
   ExecuteRun env r ctx spec pipelineInput meta w =
     (case executeRun env r ctx (orm_DB env) spec pipelineInput meta w of
        None \<Rightarrow> None
      | Some (run, trrs, retry, err, w') \<Rightarrow> Some (run, trrs, err, w'))"
proof (intro conjI)
  show "\<forall>run trrs err w'.
      executeRun env r ctx txdb spec pipelineInput meta w \<noteq> Some (run, trrs, True, err, w')"
    using executeRun_retry_False by blast
next
  show loop: "ExecuteRun_loop env (executeRun env r ctx (orm_DB env) spec pipelineInput meta) 0 0 st w =
     (case executeRun env r ctx (orm_DB env) spec pipelineInput meta w of
        None \<Rightarrow> None
      | Some (run, trrs, retry, err, w') \<Rightarrow> Some (0, 1, (run, trrs, err), w'))" for st
    by (auto simp: ExecuteRun_loop_first_attempt split: option.splits
        dest: executeRun_retry_False)
  show "ExecuteRun env r ctx spec pipelineInput meta w =
     (case executeRun env r ctx (orm_DB env) spec pipelineInput meta w of
        None \<Rightarrow> None
      | Some (run, trrs, retry, err, w') \<Rightarrow> Some (run, trrs, err, w'))"
    by (simp add: ExecuteRun_def ExecuteRun_with_def loop numPanicRetries_def
        split: option.splits)
qed

subsection \<open>The panicked run\<close>

text \<open>
  Claim C8. The run that \<open>panickedRunResults\<close> builds has \<open>FinishedAt\<close> pointing at its
  \<open>CreatedAt\<close> (the time read when the function starts), and its \<open>PipelineSpecID\<close> is the
  spec's \<open>ID\<close>; this holds on both return paths of the function.
\<close>

theorem panickedRunResults_FinishedAt_is_CreatedAt:
  "Run.FinishedAt (fst (panickedRunResults env spec w)) =
     Some (Run.CreatedAt (fst (panickedRunResults env spec w))) \<and>
   Run.CreatedAt (fst (panickedRunResults env spec w)) = clk env (tick w) \<and>
   PipelineSpecID (fst (panickedRunResults env spec w)) = Spec.ID spec"
  by (simp add: panickedRunResults_def time_Now_def Let_def split: sum.split prod.split)

subsection \<open>Parse errors\<close>

text \<open>
  Claim C9. If parsing \<open>spec.DotDagSource\<close> fails with \<open>e\<close>, \<open>ExecuteRun\<close> returns \<open>e\<close>
  itself, no task run results, and a run that has only the spec's id and the start time
  (no \<open>FinishedAt\<close>, empty outputs and errors). The only trace it leaves is the first
  debug line: no task is written to, no scheduler is started, no worker is spawned.
\<close>

theorem ExecuteRun_parse_error_unmodified:
  assumes "Parse env (DotDagSource spec) = Return (Inl e)"
  shows "ExecuteRun env r ctx spec pipelineInput meta w =
     Some (\<lparr>Run.ID = 0, PipelineSpecID = Spec.ID spec, Run.Errors = [],
            Run.Outputs = \<lparr>Val = ANil, Null = False\<rparr>, Run.CreatedAt = clk env (tick w),
            Run.FinishedAt = None\<rparr>,
           [], Some e,
           \<lparr>tick = Suc (tick w),
            trace = trace w @ [Debugw ''Initiating tasks for pipeline run of spec'']\<rparr>)"
  using assms
  by (simp add: ExecuteRun_def ExecuteRun_with_def ExecuteRun_loop_first_attempt
      executeRun_parse_failure numPanicRetries_def zero_Run_def)

theorem ExecuteRun_parse_error_unmodified_witness:
  "Parse demo_env (DotDagSource (demo_spec ''bad'')) = Return (Inl (ErrOther ''syntax error'')) \<and>
   ExecuteRun demo_env demo_runner [] (demo_spec ''bad'') (AInt 5) demo_meta demo_world =
     Some (\<lparr>Run.ID = 0, PipelineSpecID = 42, Run.Errors = [],
            Run.Outputs = \<lparr>Val = ANil, Null = False\<rparr>, Run.CreatedAt = 1000,
            Run.FinishedAt = None\<rparr>,
           [], Some (ErrOther ''syntax error''),
           \<lparr>tick = 1, trace = [Debugw ''Initiating tasks for pipeline run of spec'']\<rparr>)"
proof -
  have p: "Parse demo_env (DotDagSource (demo_spec ''bad'')) =
      Return (Inl (ErrOther ''syntax error''))"
    by (simp add: demo_env_def demo_spec_def demo_parse_def)
  show ?thesis
    using p ExecuteRun_parse_error_unmodified
      [OF p, of demo_runner "[]" "AInt 5" demo_meta demo_world]
    by (simp add: demo_env_def demo_spec_def demo_world_def)
qed

subsection \<open>What executeTaskRun passes to Task.Run\<close>

text \<open>
  The result of \<open>executeTaskRun\<close> is governed by one call of the task implementation, with
  these arguments. The task implementation is arbitrary here, so the equation fixes the
  arguments of the call.
\<close>

lemma executeTaskRun_call:
  "map_outcome Result (fst (executeTaskRun env r ctx spec taskRun meta w)) =
     Task_Run env (task taskRun)
       (if snd (TaskTimeout (task taskRun))
        then [OnChan (chStop r),
              AtTime (clk env (Suc (tick w)) + sint (fst (TaskTimeout (task taskRun))))]
        else if MaxTaskDuration spec \<noteq> 0
        then [OnChan (chStop r), AtTime (clk env (Suc (tick w)) + sint (MaxTaskDuration spec))]
        else ctx)
       (vars taskRun) meta (inputsSorted env taskRun)"
  by (simp add: executeTaskRun_def CombinedContext_def time_Now_def
      split: prod.split outcome.split)

subsection \<open>Timeout precedence\<close>

text \<open>
  Claim C3. The context that \<open>executeTaskRun\<close> passes to \<open>Task.Run\<close> takes its deadline
  from the first source that declares one: the task's own timeout if it is set; otherwise
  the spec's \<open>MaxTaskDuration\<close> if it is not zero; otherwise the context passed in is used
  as it is, so its deadline stays in force. (The context is built after the start time is
  read: \<open>clk env (Suc (tick w))\<close> is the time at that moment.)
\<close>

theorem executeTaskRun_timeout_precedence:
  "\<exists>ctx'.
     map_outcome Result (fst (executeTaskRun env r ctx spec taskRun meta w)) =
       Task_Run env (task taskRun) ctx' (vars taskRun) meta (inputsSorted env taskRun) \<and>
     ctx' =
       (if snd (TaskTimeout (task taskRun))
        then [OnChan (chStop r),
              AtTime (clk env (Suc (tick w)) + sint (fst (TaskTimeout (task taskRun))))]
        else if MaxTaskDuration spec \<noteq> 0
        then [OnChan (chStop r), AtTime (clk env (Suc (tick w)) + sint (MaxTaskDuration spec))]
        else ctx) \<and>
     ctx_Deadline ctx' =
       (if snd (TaskTimeout (task taskRun))
        then Some (clk env (Suc (tick w)) + sint (fst (TaskTimeout (task taskRun))))
        else if MaxTaskDuration spec \<noteq> 0
        then Some (clk env (Suc (tick w)) + sint (MaxTaskDuration spec))
        else ctx_Deadline ctx)"
  using executeTaskRun_call [of env r ctx spec taskRun meta w] by simp

text \<open>
  A task that reports the deadline of its context, under a spec with a \<open>MaxTaskDuration\<close>
  of 1 h, in a worker whose context is built at time 1001: with its own timeout of 1 ms
  the deadline is 1 ms after 1001, whatever the caller's context; without one it is 1 h
  after 1001; and under a spec without a \<open>MaxTaskDuration\<close> it is the caller's deadline.
\<close>

theorem executeTaskRun_timeout_precedence_witness:
  "map_outcome Result (fst (executeTaskRun demo_env demo_runner [AtTime 5]
       ((demo_spec ''x'')\<lparr>MaxTaskDuration := 3600000000000\<rparr>)
       (demo_taskRun_deadline (1000000, True)) demo_meta demo_world)) =
     Return \<lparr>Value = AInt 1001001, Error = None\<rparr> \<and>
   map_outcome Result (fst (executeTaskRun demo_env demo_runner [AtTime 5]
       ((demo_spec ''x'')\<lparr>MaxTaskDuration := 3600000000000\<rparr>)
       (demo_taskRun_deadline (0, False)) demo_meta demo_world)) =
     Return \<lparr>Value = AInt 3600000001001, Error = None\<rparr> \<and>
   map_outcome Result (fst (executeTaskRun demo_env demo_runner [AtTime 5]
       (demo_spec ''x'') (demo_taskRun_deadline (0, False)) demo_meta demo_world)) =
     Return \<lparr>Value = AInt 5, Error = None\<rparr>"
  using
    executeTaskRun_timeout_precedence [of demo_env demo_runner "[AtTime 5]"
      "(demo_spec ''x'')\<lparr>MaxTaskDuration := 3600000000000\<rparr>"
      "demo_taskRun_deadline (1000000, True)" demo_meta demo_world]
    executeTaskRun_timeout_precedence [of demo_env demo_runner "[AtTime 5]"
      "(demo_spec ''x'')\<lparr>MaxTaskDuration := 3600000000000\<rparr>"
      "demo_taskRun_deadline (0, False)" demo_meta demo_world]
    executeTaskRun_timeout_precedence [of demo_env demo_runner "[AtTime 5]"
      "demo_spec ''x''" "demo_taskRun_deadline (0, False)" demo_meta demo_world]
  by (simp add: demo_env_def demo_Task_Run_def demo_task_def demo_spec_def demo_world_def
      demo_taskRun_deadline_def)

subsection \<open>The stop signal\<close>

text \<open>
  Claim C4, as stated, fails. A task without a timeout, under a spec whose
  \<open>MaxTaskDuration\<close> is zero and under a background context, reports that its context is
  not done although the stop channel is closed: no context that \<open>executeTaskRun\<close> could
  have passed to this task is cancelled by the closing of \<open>chStop\<close>.
\<close>

theorem chStop_not_composed_counterexample:
  "map_outcome Result (fst (executeTaskRun demo_env demo_runner [] (demo_spec ''x'')
       (demo_taskRun_stop (0, False)) demo_meta demo_world)) =
     Return \<lparr>Value = AString ''running'', Error = None\<rparr> \<and>
   \<not> (\<exists>ctx'.
        map_outcome Result (fst (executeTaskRun demo_env demo_runner [] (demo_spec ''x'')
            (demo_taskRun_stop (0, False)) demo_meta demo_world)) =
          Task_Run demo_env (task (demo_taskRun_stop (0, False))) ctx'
            (vars (demo_taskRun_stop (0, False))) demo_meta
            (inputsSorted demo_env (demo_taskRun_stop (0, False))) \<and>
        ctx_Done ctx' {chStop demo_runner} 0)"
  by (simp add: executeTaskRun_call)
     (simp add: demo_env_def demo_Task_Run_def demo_task_def demo_spec_def
       demo_taskRun_stop_def ctx_Done_def)

text \<open>
  Claim C4, amended. When the task declares a timeout or the spec's \<open>MaxTaskDuration\<close> is
  not zero, the context that \<open>executeTaskRun\<close> passes to \<open>Task.Run\<close> is done as soon as
  \<open>chStop\<close> is closed; otherwise the context it passes is the caller's context, unchanged.
\<close>

theorem chStop_composed_with_declared_timeout:
  "\<exists>ctx'.
     map_outcome Result (fst (executeTaskRun env r ctx spec taskRun meta w)) =
       Task_Run env (task taskRun) ctx' (vars taskRun) meta (inputsSorted env taskRun) \<and>
     (if snd (TaskTimeout (task taskRun)) \<or> MaxTaskDuration spec \<noteq> 0
      then ctx_Done ctx' (insert (chStop r) closed) now
      else ctx' = ctx)"
proof -
  let ?c = "if snd (TaskTimeout (task taskRun))
        then [OnChan (chStop r),
              AtTime (clk env (Suc (tick w)) + sint (fst (TaskTimeout (task taskRun))))]
        else if MaxTaskDuration spec \<noteq> 0
        then [OnChan (chStop r), AtTime (clk env (Suc (tick w)) + sint (MaxTaskDuration spec))]
        else ctx"
  have call: "map_outcome Result (fst (executeTaskRun env r ctx spec taskRun meta w)) =
       Task_Run env (task taskRun) ?c (vars taskRun) meta (inputsSorted env taskRun)"
    by (rule executeTaskRun_call)
  have "if snd (TaskTimeout (task taskRun)) \<or> MaxTaskDuration spec \<noteq> 0
      then ctx_Done ?c (insert (chStop r) closed) now
      else ?c = ctx"
    by (simp add: ctx_Done_def)
  then show ?thesis
    using call by blast
qed

text \<open>
  The task that reports whether its context is done once the stop channel is closed: with
  a timeout of its own of 1 ms, or under a spec with a \<open>MaxTaskDuration\<close>, it is; with
  neither, under a background context, it is not.
\<close>

theorem chStop_composed_with_declared_timeout_witness:
  "map_outcome Result (fst (executeTaskRun demo_env demo_runner [] (demo_spec ''x'')
       (demo_taskRun_stop (1000000, True)) demo_meta demo_world)) =
     Return \<lparr>Value = AString ''cancelled'', Error = None\<rparr> \<and>
   map_outcome Result (fst (executeTaskRun demo_env demo_runner []
       ((demo_spec ''x'')\<lparr>MaxTaskDuration := 3600000000000\<rparr>)
       (demo_taskRun_stop (0, False)) demo_meta demo_world)) =
     Return \<lparr>Value = AString ''cancelled'', Error = None\<rparr> \<and>
   map_outcome Result (fst (executeTaskRun demo_env demo_runner [] (demo_spec ''x'')
       (demo_taskRun_stop (0, False)) demo_meta demo_world)) =
     Return \<lparr>Value = AString ''running'', Error = None\<rparr>"
  using
    chStop_composed_with_declared_timeout [of demo_env demo_runner "[]" "demo_spec ''x''"
      "demo_taskRun_stop (1000000, True)" demo_meta demo_world "{}" 0]
    chStop_composed_with_declared_timeout [of demo_env demo_runner "[]"
      "(demo_spec ''x'')\<lparr>MaxTaskDuration := 3600000000000\<rparr>"
      "demo_taskRun_stop (0, False)" demo_meta demo_world "{}" 0]
    chStop_composed_with_declared_timeout [of demo_env demo_runner "[]" "demo_spec ''x''"
      "demo_taskRun_stop (0, False)" demo_meta demo_world "{}" 0]
  by (auto simp: demo_env_def demo_Task_Run_def demo_task_def demo_spec_def demo_runner_def
      demo_taskRun_stop_def ctx_Done_def)

subsection \<open>The order of a task's inputs\<close>

lemma index_order_sorted:
  "sorted_wrt (\<lambda>a b. \<not> index_less b a) ys = sorted (map (\<lambda>i. sint (index i)) ys)"
  by (simp add: sorted_map index_less_def word_sless_alt not_less)

lemma sort_key_meets_contract:
  "sort_Slice_sorts (\<lambda>less. sort_key (\<lambda>i. sint (index i)))"
  by (simp add: sort_Slice_sorts_def index_order_sorted)

lemma sorted_by_index_unique:
  fixes xs ys :: "input list"
  assumes "mset ys = mset xs"
    and "sorted (map (\<lambda>i. sint (index i)) xs)" and "sorted (map (\<lambda>i. sint (index i)) ys)"
    and "distinct (map index xs)"
  shows "ys = xs"
proof -
  let ?f = "\<lambda>i::input. sint (index i)"
  have inj: "inj (sint :: int32 \<Rightarrow> int)"
    by (auto simp: inj_on_def intro: signed_word_eqI)
  have dx: "distinct (map ?f xs)"
    using assms(4) inj by (simp add: distinct_map inj_on_def comp_def)
  have "mset (map ?f ys) = mset (map ?f xs)"
    using assms(1) by simp
  then have dy: "distinct (map ?f ys)"
    using dx mset_eq_imp_distinct_iff by blast
  have s: "set ys = set xs"
    using assms(1) mset_eq_setD by blast
  have "inj_on ?f (set ys \<union> set xs)"
    using dx s by (simp add: distinct_map)
  then show ?thesis
    using map_sorted_distinct_set_unique [of ?f ys xs] assms(2,3) dx dy s by blast
qed

lemma executeTaskRun_cong:
  assumes "task m' = task m" and "vars m' = vars m" and "inputsSorted env m' = inputsSorted env m"
  shows "executeTaskRun env r ctx spec m' meta w = executeTaskRun env r ctx spec m meta w"
  unfolding executeTaskRun_def assms by (rule refl)

text \<open>
  Claim C5. Given that \<open>sort.Slice\<close> sorts, the \<open>inputs\<close> argument that \<open>executeTaskRun\<close>
  passes to \<open>Task.Run\<close> is the list of the results of the task run's inputs, arranged in
  ascending order of their (signed, 32-bit) edge index. This holds for every order of
  \<open>taskRun.inputs\<close>: the indices of the list passed are the indices of the inputs, sorted,
  which depends on the inputs collected and not on the order of their collection.
\<close>

theorem Task_Run_inputs_sorted_by_index:
  assumes "sort_Slice_sorts (sort_Slice env)"
  shows "\<exists>ys ctx'.
           mset ys = mset (inputs taskRun) \<and>
           sorted (map (\<lambda>i. sint (index i)) ys) \<and>
           map (\<lambda>i. sint (index i)) ys = sort (map (\<lambda>i. sint (index i)) (inputs taskRun)) \<and>
           map_outcome Result (fst (executeTaskRun env r ctx spec taskRun meta w)) =
             Task_Run env (task taskRun) ctx' (vars taskRun) meta (map result ys)"
proof -
  let ?srt = "sort_Slice env index_less"
  let ?f = "\<lambda>i::input. sint (index i)"
  have c: "mset (?srt xs) = mset xs \<and> sorted (map ?f (?srt xs))" for xs
    using assms by (simp add: sort_Slice_sorts_def index_order_sorted)
  have m: "mset (map ?f (?srt (inputs taskRun))) = mset (map ?f (inputs taskRun))"
    using c [of "inputs taskRun"] by simp
  have "sort (map ?f (inputs taskRun)) = map ?f (?srt (inputs taskRun))"
    using m c [of "inputs taskRun"] by (intro properties_for_sort) simp_all
  then have e: "map ?f (?srt (inputs taskRun)) = sort (map ?f (inputs taskRun))"
    by (rule sym)
  let ?c = "if snd (TaskTimeout (task taskRun))
        then [OnChan (chStop r),
              AtTime (clk env (Suc (tick w)) + sint (fst (TaskTimeout (task taskRun))))]
        else if MaxTaskDuration spec \<noteq> 0
        then [OnChan (chStop r), AtTime (clk env (Suc (tick w)) + sint (MaxTaskDuration spec))]
        else ctx"
  have call: "map_outcome Result (fst (executeTaskRun env r ctx spec taskRun meta w)) =
      Task_Run env (task taskRun) ?c (vars taskRun) meta (map result (?srt (inputs taskRun)))"
    unfolding inputsSorted_def [symmetric] by (rule executeTaskRun_call)
  show ?thesis
    by (rule exI [of _ "?srt (inputs taskRun)"], rule exI [of _ ?c])
       (simp add: c e call)
qed

text \<open>
  The subtracting task of the diamond returns its input values in the order received:
  21 (edge 0) before 19 (edge 1), whether the input from \<open>B\<close> or the one from \<open>C\<close> was
  collected first.
\<close>

theorem Task_Run_inputs_sorted_by_index_witness:
  "sort_Slice_sorts (sort_Slice demo_env) \<and>
   map result (inputs demo_taskRun_B_first) =
     [\<lparr>Value = AInt 21, Error = None\<rparr>, \<lparr>Value = AInt 19, Error = None\<rparr>] \<and>
   map result (inputs demo_taskRun_C_first) =
     [\<lparr>Value = AInt 19, Error = None\<rparr>, \<lparr>Value = AInt 21, Error = None\<rparr>] \<and>
   map_outcome Result (fst (executeTaskRun demo_env demo_runner [] (demo_spec ''x'')
       demo_taskRun_B_first demo_meta demo_world)) =
     Return \<lparr>Value = AList [AInt 21, AInt 19], Error = None\<rparr> \<and>
   map_outcome Result (fst (executeTaskRun demo_env demo_runner [] (demo_spec ''x'')
       demo_taskRun_C_first demo_meta demo_world)) =
     Return \<lparr>Value = AList [AInt 21, AInt 19], Error = None\<rparr>"
proof -
  have c: "sort_Slice_sorts (sort_Slice demo_env)"
    using sort_key_meets_contract by (simp add: demo_env_def)
  show ?thesis
    using c
      Task_Run_inputs_sorted_by_index [OF c, of demo_taskRun_B_first demo_runner "[]"
        "demo_spec ''x''" demo_meta demo_world]
      Task_Run_inputs_sorted_by_index [OF c, of demo_taskRun_C_first demo_runner "[]"
        "demo_spec ''x''" demo_meta demo_world]
    by (simp add: executeTaskRun_call)
       (simp add: inputsSorted_def demo_env_def demo_Task_Run_def demo_task_def
         demo_taskRun_B_first_def demo_taskRun_C_first_def)
qed

text \<open>
  The edge indices of the inputs of one task run are distinct. Then the sorted arrangement
  is unique, and \<open>executeTaskRun\<close> does the same for two runs of a task that hold the same
  inputs in different orders. (With equal indices \<open>sort.Slice\<close>, which is not stable, may
  leave the inputs that share an index in either order.)
\<close>

lemma executeTaskRun_order_independent:
  fixes m' :: memoryTaskRun
  assumes srt: "sort_Slice_sorts (sort_Slice env)"
    and h: "task m' = task taskRun" "vars m' = vars taskRun"
      "mset (inputs m') = mset (inputs taskRun)"
    and dist: "distinct (map index (inputs taskRun))"
  shows "executeTaskRun env r ctx spec m' meta w = executeTaskRun env r ctx spec taskRun meta w"
proof -
  let ?srt = "sort_Slice env index_less"
  have c: "mset (?srt xs) = mset xs \<and> sorted (map (\<lambda>i. sint (index i)) (?srt xs))" for xs
    using srt by (simp add: sort_Slice_sorts_def index_order_sorted)
  have d: "distinct (map index (?srt (inputs taskRun)))"
  proof -
    have "mset (map index (?srt (inputs taskRun))) = mset (map index (inputs taskRun))"
      using c [of "inputs taskRun"] by simp
    then show ?thesis
      using dist mset_eq_imp_distinct_iff by blast
  qed
  have "?srt (inputs m') = ?srt (inputs taskRun)"
    using sorted_by_index_unique [of "?srt (inputs m')" "?srt (inputs taskRun)"]
      c [of "inputs m'"] c [of "inputs taskRun"] h d by simp
  then have "inputsSorted env m' = inputsSorted env taskRun"
    by (simp add: inputsSorted_def)
  then show ?thesis
    using h by (intro executeTaskRun_cong) simp_all
qed

subsection \<open>Task panics\<close>

lemma executeTaskRun_Panic_iff:
  "fst (executeTaskRun env r ctx spec taskRun meta w) = Panic v \<longleftrightarrow>
   map_outcome Result (fst (executeTaskRun env r ctx spec taskRun meta w)) = Panic v"
  by (cases "fst (executeTaskRun env r ctx spec taskRun meta w)") simp_all

lemma worker_normal_path_CreatedAt:
  assumes "fst (executeTaskRun env r ctx spec taskRun meta w) = Return trr"
  shows "fst (worker env r ctx spec taskRun meta w) = Some trr \<and>
         TaskRunResult.CreatedAt trr = clk env (tick w)"
  using assms
  by (cases "snd (TaskTimeout (task taskRun))"; cases "MaxTaskDuration spec = 0")
     (auto simp: worker_def executeTaskRun_def time_Now_def case_prod_beta
       split: outcome.splits)

text \<open>
  A panic of the task with a value that is not nil is trapped and reported: the worker
  sends a result for the task whose error is \<open>panicError{v}\<close>, and a scheduler waiting for
  a result receives it.
\<close>

lemma worker_posts_non_nil_panic:
  assumes "fst (executeTaskRun env r ctx spec taskRun meta w) = Panic v" and "v \<noteq> ANil"
  shows "\<exists>fin.
     fst (worker env r ctx spec taskRun meta w) =
       Some \<lparr>Task = task taskRun, Result = \<lparr>Value = ANil, Error = Some (panicError v)\<rparr>,
             TaskRunResult.CreatedAt = 0, TaskRunResult.FinishedAt = fin\<rparr> \<and>
     last (trace (snd (worker env r ctx spec taskRun meta w))) =
       ResultSent \<lparr>Task = task taskRun, Result = \<lparr>Value = ANil, Error = Some (panicError v)\<rparr>,
             TaskRunResult.CreatedAt = 0, TaskRunResult.FinishedAt = fin\<rparr> \<and>
     (taskCh env s = Waiting \<longrightarrow>
        dispatch_one env r ctx spec meta (s, [taskRun], w) =
          Continue (resultCh env s
              \<lparr>Task = task taskRun, Result = \<lparr>Value = ANil, Error = Some (panicError v)\<rparr>,
               TaskRunResult.CreatedAt = 0, TaskRunResult.FinishedAt = fin\<rparr>,
            [], snd (worker env r ctx spec taskRun meta w)))"
  using assms
  by (cases "executeTaskRun env r ctx spec taskRun meta w")
     (simp add: worker_def dispatch_one_def remove_nth_def emit_def Let_def split: prod.split)

text \<open>
  Claim C6 does not hold of the code for a task that calls \<open>panic(nil)\<close>. The panic is
  trapped, but the handler's test \<open>err != nil\<close> fails on the recovered value, so the worker
  sends nothing. The scheduler then waits for a result that never comes, and the run does
  not return.
\<close>

theorem worker_posts_nothing_on_nil_panic:
  "fst (executeTaskRun demo_env demo_runner [] (demo_spec ''nil'') demo_taskRun_nil demo_meta
         demo_world) = Panic ANil \<and>
   worker demo_env demo_runner [] (demo_spec ''nil'') demo_taskRun_nil demo_meta demo_world =
     (None, \<lparr>tick = 1, trace = []\<rparr>) \<and>
   ExecuteRun demo_env demo_runner [] (demo_spec ''nil'') (AInt 5) demo_meta demo_world = None"
proof (intro conjI)
  show "fst (executeTaskRun demo_env demo_runner [] (demo_spec ''nil'') demo_taskRun_nil
         demo_meta demo_world) = Panic ANil"
    by (simp add: executeTaskRun_def time_Now_def inputsSorted_def demo_env_def
        demo_Task_Run_def demo_task_def demo_spec_def demo_world_def demo_taskRun_nil_def)
  show "worker demo_env demo_runner [] (demo_spec ''nil'') demo_taskRun_nil demo_meta
         demo_world = (None, \<lparr>tick = 1, trace = []\<rparr>)"
    by (simp add: worker_def executeTaskRun_def time_Now_def inputsSorted_def demo_env_def
        demo_Task_Run_def demo_task_def demo_spec_def demo_world_def demo_taskRun_nil_def)
  show "ExecuteRun demo_env demo_runner [] (demo_spec ''nil'') (AInt 5) demo_meta demo_world =
      None"
    by (simp add: ExecuteRun_def ExecuteRun_with_def ExecuteRun_loop_first_attempt
        executeRun_def dispatch.simps dispatch_one_def worker_def executeTaskRun_def
        inputsSorted_def remove_nth_def time_Now_def emit_def Let_def
        demo_env_def demo_spec_def demo_parse_def demo_task_def demo_Task_Run_def
        demo_newScheduler_def demo_world_def)
qed

text \<open>
  Claim C7 does not hold of the code. The worker of the panicking task below starts when
  the clock reads 1000, and the result it posts has the zero time as \<open>CreatedAt\<close>: the
  recovery path builds the result without that field.
\<close>

theorem panic_result_CreatedAt_is_zero_time:
  "fst (time_Now demo_env demo_world) = 1000 \<and>
   fst (worker demo_env demo_runner [] (demo_spec ''x'') demo_taskRun_boom demo_meta demo_world) =
     Some \<lparr>Task = demo_task ''boom'',
           Result = \<lparr>Value = ANil, Error = Some (panicError (AString ''boom''))\<rparr>,
           TaskRunResult.CreatedAt = 0, TaskRunResult.FinishedAt = 1001\<rparr>"
  by (simp add: worker_def executeTaskRun_def time_Now_def emit_def
      demo_env_def demo_Task_Run_def demo_task_def demo_spec_def demo_world_def
      demo_taskRun_boom_def inputsSorted_def Let_def)

subsection \<open>The retry loop\<close>

lemma panickedTrrs_maps:
  "map Task (fst (panickedTrrs env f ts acc w)) = map Task acc @ ts \<and>
   map Result (fst (panickedTrrs env f ts acc w)) =
     map Result acc @ replicate (length ts) \<lparr>Value = ANil, Error = Some ErrRunPanicked\<rparr>"
proof (induction ts arbitrary: acc w)
  case Nil
  then show ?case by simp
next
  case (Cons t ts)
  show ?case
    by (simp add: Cons.IH split: prod.split flip: replicate_append_same)
qed

lemma ExecuteRun_loop_all_retry:
  assumes "\<forall>w. \<exists>run trrs err w'. attempt w = Some (run, trrs, True, err, w')"
  shows "n = numPanicRetries - i \<Longrightarrow> i \<le> numPanicRetries \<Longrightarrow>
    \<exists>st' w'. ExecuteRun_loop env attempt i calls st w =
       Some (numPanicRetries, calls + (numPanicRetries - i), st', w')"
proof (induction n arbitrary: i calls st w)
  case 0
  then have "i = numPanicRetries" by simp
  then show ?case by (subst ExecuteRun_loop.simps) (cases st, simp)
next
  case (Suc n)
  then have lt: "i < numPanicRetries" by simp
  obtain run trrs err w' where a: "attempt w = Some (run, trrs, True, err, w')"
    using assms by blast
  have "\<exists>st' w''. ExecuteRun_loop env attempt (i + 1) (calls + 1) (run, trrs, err)
          (emit (Sleep (backoff_Duration env i)) w') =
       Some (numPanicRetries, (calls + 1) + (numPanicRetries - (i + 1)), st', w'')"
    using Suc.prems lt by (intro Suc.IH) simp_all
  then show ?case
    using lt a by (subst ExecuteRun_loop.simps) auto
qed

lemma panickedRunResults_parsed:
  assumes "Spec_Pipeline env spec = Inr p"
  shows "\<exists>run trrs w'. panickedRunResults env spec w = (run, trrs, None, w') \<and>
     map Task trrs = Tasks p \<and>
     map Result trrs = replicate (length (Tasks p)) \<lparr>Value = ANil, Error = Some ErrRunPanicked\<rparr>"
  using assms panickedTrrs_maps [of env _ "Tasks p" "[]"]
  by (simp add: panickedRunResults_def Let_def split: prod.split) (metis fst_conv)

text \<open>
  The loop and \<open>panickedRunResults\<close> by themselves do what the retry is meant to do: were
  every attempt to signal retry, the loop would end at \<open>i = numPanicRetries\<close> and the
  panicked run would be returned, with one result for each task of the DAG, each with
  \<open>ErrRunPanicked\<close> and a nil value.
\<close>

lemma retry_loop_exhaustion:
  assumes retry: "\<forall>w. \<exists>run trrs err w'. attempt w = Some (run, trrs, True, err, w')"
    and parsed: "Spec_Pipeline env spec = Inr p"
  shows "\<exists>st w5 run trrs w'.
     ExecuteRun_loop env attempt 0 0 (zero_Run, [], None) w = Some (numPanicRetries, 5, st, w5) \<and>
     panickedRunResults env spec w5 = (run, trrs, None, w') \<and>
     ExecuteRun_with env attempt spec w = Some (run, trrs, None, w') \<and>
     map Task trrs = Tasks p \<and>
     map Result trrs = replicate (length (Tasks p)) \<lparr>Value = ANil, Error = Some ErrRunPanicked\<rparr>"
proof -
  obtain st w5 where l: "ExecuteRun_loop env attempt 0 0 (zero_Run, [], None) w =
      Some (numPanicRetries, 5, st, w5)"
    using ExecuteRun_loop_all_retry [OF retry, of numPanicRetries 0 env 0 "(zero_Run, [], None)" w]
    by (auto simp: numPanicRetries_def)
  obtain run trrs w' where p: "panickedRunResults env spec w5 = (run, trrs, None, w')"
    "map Task trrs = Tasks p"
    "map Result trrs = replicate (length (Tasks p)) \<lparr>Value = ANil, Error = Some ErrRunPanicked\<rparr>"
    using panickedRunResults_parsed [OF parsed, of w5] by blast
  have "ExecuteRun_with env attempt spec w = Some (run, trrs, None, w')"
    using l p(1) by (cases st) (simp add: ExecuteRun_with_def)
  then show ?thesis
    using l p by blast
qed

text \<open>
  Claim C1 does not hold of the code: no attempt ever signals retry, so the retry never
  happens. In the run below the attempt fails by a panic before the scheduler starts (the
  parser panics), the failure the retry is reserved for. \<open>executeRun\<close> does not return
  and neither does \<open>ExecuteRun\<close>: the panic goes on to the caller after this one attempt,
  where the claim has five attempts and then the panicked run, which
  \<open>panickedRunResults\<close> would build for this spec.
\<close>

theorem run_panic_is_not_retried:
  "Parse demo_env (DotDagSource (demo_spec ''panic'')) = Panic (AString ''parser panicked'') \<and>
   executeRun demo_env demo_runner [] (orm_DB demo_env) (demo_spec ''panic'') (AInt 5)
     demo_meta demo_world = None \<and>
   ExecuteRun demo_env demo_runner [] (demo_spec ''panic'') (AInt 5) demo_meta demo_world = None \<and>
   map Result (fst (snd (panickedRunResults demo_env (demo_spec ''panic'') demo_world))) =
     [\<lparr>Value = ANil, Error = Some ErrRunPanicked\<rparr>, \<lparr>Value = ANil, Error = Some ErrRunPanicked\<rparr>]"
proof (intro conjI)
  show p: "Parse demo_env (DotDagSource (demo_spec ''panic'')) =
      Panic (AString ''parser panicked'')"
    by (simp add: demo_env_def demo_spec_def demo_parse_def)
  show e: "executeRun demo_env demo_runner [] (orm_DB demo_env) (demo_spec ''panic'') (AInt 5)
     demo_meta demo_world = None"
    using p by (simp add: executeRun_def time_Now_def Let_def)
  show "ExecuteRun demo_env demo_runner [] (demo_spec ''panic'') (AInt 5) demo_meta demo_world =
      None"
    using e by (simp add: ExecuteRun_def ExecuteRun_with_def ExecuteRun_loop_first_attempt)
  show "map Result (fst (snd (panickedRunResults demo_env (demo_spec ''panic'') demo_world))) =
     [\<lparr>Value = ANil, Error = Some ErrRunPanicked\<rparr>, \<lparr>Value = ANil, Error = Some ErrRunPanicked\<rparr>]"
    by (simp add: panickedRunResults_def time_Now_def Let_def demo_env_def)
qed

subsection \<open>ExecuteAndInsertFinishedRun\<close>

lemma ExecuteAndInsert_insert_fails:
  assumes "ExecuteRun env r ctx spec pipelineInput meta w = Some (run, trrs, None, w1)"
    and "orm_InsertFinishedRun env (orm_DB env) run trrs saveSuccessfulTaskRuns w1 =
      ((runID, Some e), w2)"
  shows "ExecuteAndInsertFinishedRun env r ctx spec pipelineInput meta saveSuccessfulTaskRuns w =
      Some (runID, trrs_FinalResult env trrs,
            Some (Wrapped e ''error inserting finished results for spec ID %v'' (Spec.ID spec)), w2)"
  using assms by (simp add: ExecuteAndInsertFinishedRun_def errors_Wrapf_def Let_def)

lemma ExecuteAndInsert_run_fails:
  assumes "ExecuteRun env r ctx spec pipelineInput meta w = Some (run, trrs, Some e, w1)"
  shows "ExecuteAndInsertFinishedRun env r ctx spec pipelineInput meta saveSuccessfulTaskRuns w =
      Some (Run.ID run, zero_FinalResult,
            Some (Wrapped e ''error executing run for spec ID %v'' (Spec.ID spec)), w1)"
  using assms by (simp add: ExecuteAndInsertFinishedRun_def errors_Wrapf_def)

lemma demo_run_completes:
  "(case ExecuteRun demo_env demo_runner [] (demo_spec ''x'') (AInt 5) demo_meta demo_world of
      None \<Rightarrow> False
    | Some (run, trrs, err, w1) \<Rightarrow> err = None \<and>
        demo_FinalResult trrs = \<lparr>FinalResult.Outputs = [AList [AInt 5], ANil],
           FinalResult.Errors = [None, Some (panicError (AString ''boom''))]\<rparr>)"
  by (simp add: ExecuteRun_def ExecuteRun_with_def ExecuteRun_loop_first_attempt executeRun_def
      dispatch.simps dispatch_one_def worker_def executeTaskRun_def
      inputsSorted_def logTaskRunToPrometheus_def remove_nth_def time_Now_def emit_def Let_def
      demo_env_def demo_spec_def demo_parse_def demo_task_def demo_Task_Run_def
      demo_newScheduler_def demo_FinalResult_def demo_world_def numPanicRetries_def zero_Run_def)

lemma demo_run_parse_fails:
  "ExecuteRun demo_env demo_runner [] (demo_spec ''bad'') (AInt 5) demo_meta demo_world =
     Some (zero_Run\<lparr>PipelineSpecID := 42, Run.CreatedAt := 1000\<rparr>, [],
           Some (ErrOther ''syntax error''),
           \<lparr>tick = 1, trace = [Debugw ''Initiating tasks for pipeline run of spec'']\<rparr>)"
  by (simp add: ExecuteRun_def ExecuteRun_with_def ExecuteRun_loop_first_attempt executeRun_def
      time_Now_def emit_def Let_def demo_env_def demo_spec_def demo_parse_def demo_world_def
      numPanicRetries_def)

text \<open>
  Claim C10. When \<open>ExecuteRun\<close> succeeds and \<open>InsertFinishedRun\<close> fails with \<open>e\<close>,
  \<open>ExecuteAndInsertFinishedRun\<close> returns the run id the insert gave, the \<open>FinalResult\<close> of
  the executed task run results, and \<open>e\<close> wrapped. When \<open>ExecuteRun\<close> fails with \<open>e'\<close>, it
  returns the run's id, the zero \<open>FinalResult\<close>, and \<open>e'\<close> wrapped.
\<close>

theorem ExecuteAndInsertFinishedRun_results_on_errors:
  "(ExecuteRun env r ctx spec pipelineInput meta w = Some (run, trrs, None, wa) \<and>
    orm_InsertFinishedRun env (orm_DB env) run trrs saveSuccessfulTaskRuns wa =
      ((runID, Some e), wb)
    \<longrightarrow> ExecuteAndInsertFinishedRun env r ctx spec pipelineInput meta saveSuccessfulTaskRuns w =
      Some (runID, trrs_FinalResult env trrs,
            Some (Wrapped e ''error inserting finished results for spec ID %v'' (Spec.ID spec)),
            wb)) \<and>
   (ExecuteRun env r ctx spec pipelineInput meta w = Some (run', trrs', Some e', wa')
    \<longrightarrow> ExecuteAndInsertFinishedRun env r ctx spec pipelineInput meta saveSuccessfulTaskRuns w =
      Some (Run.ID run', zero_FinalResult,
            Some (Wrapped e' ''error executing run for spec ID %v'' (Spec.ID spec)), wa'))"
  by (simp add: ExecuteAndInsert_insert_fails ExecuteAndInsert_run_fails)

theorem ExecuteAndInsertFinishedRun_results_on_errors_witness:
  "(\<exists>run trrs w1.
      ExecuteRun demo_env demo_runner [] (demo_spec ''x'') (AInt 5) demo_meta demo_world =
        Some (run, trrs, None, w1) \<and>
      orm_InsertFinishedRun demo_env (orm_DB demo_env) run trrs True w1 =
        ((0, Some (ErrOther ''insert failed'')), w1) \<and>
      ExecuteAndInsertFinishedRun demo_env demo_runner [] (demo_spec ''x'') (AInt 5) demo_meta
          True demo_world =
        Some (0, \<lparr>FinalResult.Outputs = [AList [AInt 5], ANil],
                  FinalResult.Errors = [None, Some (panicError (AString ''boom''))]\<rparr>,
              Some (Wrapped (ErrOther ''insert failed'')
                      ''error inserting finished results for spec ID %v'' 42), w1)) \<and>
   (\<exists>run w1.
      ExecuteRun demo_env demo_runner [] (demo_spec ''bad'') (AInt 5) demo_meta demo_world =
        Some (run, [], Some (ErrOther ''syntax error''), w1) \<and>
      ExecuteAndInsertFinishedRun demo_env demo_runner [] (demo_spec ''bad'') (AInt 5) demo_meta
          True demo_world =
        Some (0, \<lparr>FinalResult.Outputs = [], FinalResult.Errors = []\<rparr>,
              Some (Wrapped (ErrOther ''syntax error'')
                      ''error executing run for spec ID %v'' 42), w1))"
proof (intro conjI)
  obtain run trrs w1 where
    e: "ExecuteRun demo_env demo_runner [] (demo_spec ''x'') (AInt 5) demo_meta demo_world =
          Some (run, trrs, None, w1)"
    and fr: "demo_FinalResult trrs = \<lparr>FinalResult.Outputs = [AList [AInt 5], ANil],
           FinalResult.Errors = [None, Some (panicError (AString ''boom''))]\<rparr>"
    using demo_run_completes by (auto split: option.splits)
  have i: "orm_InsertFinishedRun demo_env (orm_DB demo_env) run trrs True w1 =
        ((0, Some (ErrOther ''insert failed'')), w1)"
    by (simp add: demo_env_def)
  have "ExecuteAndInsertFinishedRun demo_env demo_runner [] (demo_spec ''x'') (AInt 5) demo_meta
          True demo_world =
        Some (0, trrs_FinalResult demo_env trrs,
              Some (Wrapped (ErrOther ''insert failed'')
                      ''error inserting finished results for spec ID %v''
                      (Spec.ID (demo_spec ''x''))), w1)"
    using e i ExecuteAndInsertFinishedRun_results_on_errors
      [where env = demo_env and r = demo_runner and ctx = "[]" and spec = "demo_spec ''x''"
         and pipelineInput = "AInt 5" and meta = demo_meta and w = demo_world and run = run
         and trrs = trrs and wa = w1 and saveSuccessfulTaskRuns = True and runID = 0
         and e = "ErrOther ''insert failed''" and wb = w1]
    by blast
  then show "\<exists>run trrs w1.
      ExecuteRun demo_env demo_runner [] (demo_spec ''x'') (AInt 5) demo_meta demo_world =
        Some (run, trrs, None, w1) \<and>
      orm_InsertFinishedRun demo_env (orm_DB demo_env) run trrs True w1 =
        ((0, Some (ErrOther ''insert failed'')), w1) \<and>
      ExecuteAndInsertFinishedRun demo_env demo_runner [] (demo_spec ''x'') (AInt 5) demo_meta
          True demo_world =
        Some (0, \<lparr>FinalResult.Outputs = [AList [AInt 5], ANil],
                  FinalResult.Errors = [None, Some (panicError (AString ''boom''))]\<rparr>,
              Some (Wrapped (ErrOther ''insert failed'')
                      ''error inserting finished results for spec ID %v'' 42), w1)"
    using e i fr by (intro exI [of _ run] exI [of _ trrs] exI [of _ w1])
      (simp add: demo_env_def demo_spec_def)
next
  let ?run = "zero_Run\<lparr>PipelineSpecID := 42, Run.CreatedAt := 1000\<rparr>"
  let ?w1 = "\<lparr>tick = 1, trace = [Debugw ''Initiating tasks for pipeline run of spec'']\<rparr>"
  have "ExecuteAndInsertFinishedRun demo_env demo_runner [] (demo_spec ''bad'') (AInt 5) demo_meta
          True demo_world =
        Some (Run.ID ?run, zero_FinalResult,
              Some (Wrapped (ErrOther ''syntax error'') ''error executing run for spec ID %v''
                      (Spec.ID (demo_spec ''bad''))), ?w1)"
    using demo_run_parse_fails ExecuteAndInsertFinishedRun_results_on_errors
      [where env = demo_env and r = demo_runner and ctx = "[]" and spec = "demo_spec ''bad''"
         and pipelineInput = "AInt 5" and meta = demo_meta and w = demo_world and run' = ?run
         and trrs' = "[]" and wa' = ?w1 and saveSuccessfulTaskRuns = True
         and e' = "ErrOther ''syntax error''"]
    by blast
  then show "\<exists>run w1.
      ExecuteRun demo_env demo_runner [] (demo_spec ''bad'') (AInt 5) demo_meta demo_world =
        Some (run, [], Some (ErrOther ''syntax error''), w1) \<and>
      ExecuteAndInsertFinishedRun demo_env demo_runner [] (demo_spec ''bad'') (AInt 5) demo_meta
          True demo_world =
        Some (0, \<lparr>FinalResult.Outputs = [], FinalResult.Errors = []\<rparr>,
              Some (Wrapped (ErrOther ''syntax error'')
                      ''error executing run for spec ID %v'' 42), w1)"
    using demo_run_parse_fails by (intro exI [of _ ?run] exI [of _ ?w1])
      (simp add: zero_Run_def zero_FinalResult_def demo_spec_def)
qed


end
